theory Spec2Isabelle
  imports Main "HOL-Library.Word"
begin

unbundle bit_operations_syntax

section \<open>Exceptions\<close>

text \<open>
  Every Python exception the modelled code can raise is a value of \<open>error\<close>; a function
  that can raise returns \<open>error + 'a\<close> with \<open>Inl\<close> for the raised exception.  All of them
  are subclasses of \<open>Exception\<close>.
\<close>

datatype error =
    ValueError
  | KeyError string
  | UnicodeDecodeError
  | AttributeError
  | ZeroDivisionError
  | OverflowError
  | NameError

section \<open>Python strings\<close>

text \<open>
  Path names are Python \<open>str\<close> values, modelled as \<open>string\<close>.  \<open>lower_char\<close> is
  \<open>str.lower\<close> on one character of the range a \<open>char\<close> covers (code points below 256):
  the ASCII capitals and the Latin-1 capitals other than the multiplication sign move up
  by 32, every other character stays.
\<close>

definition lower_char :: "char \<Rightarrow> char" where
  "lower_char c =
     (let n = (of_char c :: nat)
      in if (65 \<le> n \<and> n \<le> 90) \<or> (192 \<le> n \<and> n \<le> 222 \<and> n \<noteq> 215)
         then char_of (n + 32) else c)"

definition lower :: "string \<Rightarrow> string" where
  "lower s = map lower_char s"

definition startswith :: "string \<Rightarrow> string \<Rightarrow> bool" where
  "startswith s pre = (take (length pre) s = pre)"

definition endswith :: "string \<Rightarrow> string \<Rightarrow> bool" where
  "endswith s suf = (length suf \<le> length s \<and> drop (length s - length suf) s = suf)"

section \<open>Path normalization (srl.py, \<open>_normalize_path\<close>)\<close>

text \<open>
  \<^verbatim>\<open>
  if p.startswith("/"): p = p[1:]
  if p.lower().endswith(".bin"): p = p[:4]
  return p
  \<close>
  The slice \<open>p[:4]\<close> keeps the first four characters of the name.
\<close>

definition normalize_path :: "string \<Rightarrow> string" where
  "normalize_path p =
     (let p1 = (if startswith p ''/'' then drop 1 p else p);
          p2 = (if endswith (lower p1) ''.bin'' then take 4 p1 else p1)
      in p2)"

section \<open>util.py\<close>

subsection \<open>\<open>readle\<close>, \<open>readbe\<close>\<close>

type_synonym byte = "8 word"
type_synonym bytes = "byte list"

text \<open>\<open>int.from_bytes(b, 'little')\<close> and \<open>int.from_bytes(b, 'big')\<close>; both are 0 on \<open>b''\<close>.\<close>

definition readle :: "bytes \<Rightarrow> int" where
  "readle b = foldr (\<lambda>x acc. uint x + 256 * acc) b 0"

definition readbe :: "bytes \<Rightarrow> int" where
  "readbe b = fold (\<lambda>x acc. 256 * acc + uint x) b 0"

subsection \<open>\<open>roundup\<close>\<close>

text \<open>
  \<^verbatim>\<open>return int(ceil(offset / alignment) * alignment)\<close>

  \<open>offset / alignment\<close> is Python's true division of two \<open>int\<close>s: it raises
  \<open>ZeroDivisionError\<close> for a zero divisor, \<open>OverflowError\<close> when the quotient is too large
  for a double, and otherwise returns the double nearest to the exact quotient, ties going
  to the even significand.  A double is kept as significand and exponent, standing for
  \<open>mant * 2 ^ expo\<close>.  In \<open>true_divide\<close>, \<open>fl\<close> is the integer part of the binary
  logarithm of the quotient of the absolute values, the exponent \<open>e\<close> leaves a significand
  of 53 bits (fewer below the smallest normal double, where the exponent stays at
  \<open>-1074\<close>), and \<open>m\<close> is the quotient scaled by \<open>2 ^ - e\<close> and rounded.  A rounded value of
  \<open>2 ^ 1024\<close> or more is the overflow.
\<close>

record pyfloat =
  mant :: int
  expo :: int

fun bit_length :: "nat \<Rightarrow> nat" where
  "bit_length n = (if n = 0 then 0 else Suc (bit_length (n div 2)))"

declare bit_length.simps [simp del]

text \<open>The integer nearest to \<open>n / d\<close> for \<open>d > 0\<close>, ties to even.\<close>

definition round_half_even :: "nat \<Rightarrow> nat \<Rightarrow> nat" where
  "round_half_even n d =
     (let q = n div d; r = n mod d
      in if d < 2 * r \<or> (2 * r = d \<and> odd q) then q + 1 else q)"

definition true_divide :: "int \<Rightarrow> int \<Rightarrow> error + pyfloat" where
  "true_divide a b =
     (if b = 0 then Inl ZeroDivisionError
      else if a = 0 then Inr \<lparr>mant = 0, expo = 0\<rparr>
      else
        let n = nat \<bar>a\<bar>; d = nat \<bar>b\<bar>;
            k = int (bit_length n) - int (bit_length d);
            fl = (if (if 0 \<le> k then d * 2 ^ nat k \<le> n else d \<le> n * 2 ^ nat (- k))
                  then k else k - 1);
            e = max (fl - 52) (- 1074);
            m = (if 0 \<le> e then round_half_even n (d * 2 ^ nat e)
                 else round_half_even (n * 2 ^ nat (- e)) d)
        in if 0 \<le> e \<and> (2::int) ^ 1024 \<le> int m * 2 ^ nat e then Inl OverflowError
           else Inr \<lparr>mant = sgn a * sgn b * int m, expo = e\<rparr>)"

text \<open>\<open>math.ceil\<close> of a double is the exact integer ceiling, a Python \<open>int\<close>.\<close>

definition ceil :: "pyfloat \<Rightarrow> int" where
  "ceil x =
     (if 0 \<le> expo x then mant x * 2 ^ nat (expo x)
      else - ((- mant x) div 2 ^ nat (- expo x)))"

definition roundup :: "int \<Rightarrow> int \<Rightarrow> error + int" where
  "roundup offset alignment =
     (case true_divide offset alignment of
        Inl e \<Rightarrow> Inl e
      | Inr q \<Rightarrow> Inr (ceil q * alignment))"

subsection \<open>\<open>decompose\<close>\<close>

text \<open>
  The \<open>flag\<close> argument is an enumeration class: iterating it yields its members in
  definition order, and \<open>flag._value2member_map_\<close> is a dictionary from values to members.
\<close>

record member =
  member_name :: string
  member_value :: int

record flag =
  members :: "member list"
  value2member_map :: "int \<rightharpoonup> member"

text \<open>
  \<open>_high_bit\<close> is a name that util.py neither defines nor imports: evaluating the call
  \<open>_high_bit(tmp)\<close> raises \<open>NameError\<close>, whatever the argument.
\<close>

definition high_bit :: "int \<Rightarrow> error + nat" where
  "high_bit v = Inl NameError"

text \<open>
  \<^verbatim>\<open>
  for member in flag:
      member_value = member.value
      if member_value and member_value & value == member_value:
          members.append(member)
          not_covered &= ~member_value
  \<close>
\<close>

fun match_members :: "member list \<Rightarrow> int \<Rightarrow> member list \<Rightarrow> int \<Rightarrow> member list \<times> int" where
  "match_members [] v ms not_covered = (ms, not_covered)"
| "match_members (m # rest) v ms not_covered =
     (if member_value m \<noteq> 0 \<and> member_value m AND v = member_value m
      then match_members rest v (ms @ [m]) (not_covered AND NOT (member_value m))
      else match_members rest v ms not_covered)"

text \<open>
  \<^verbatim>\<open>
  while tmp:
      flag_value = 2 ** _high_bit(tmp)
      if flag_value in flag._value2member_map_:
          members.append(flag._value2member_map_[flag_value])
          not_covered &= ~flag_value
      tmp &= ~flag_value
  \<close>
  The first statement of the body raises, so the loop ends at once: with its result when
  \<open>tmp\<close> is 0, with the exception otherwise.
\<close>

function cover_bits ::
  "(int \<rightharpoonup> member) \<Rightarrow> int \<Rightarrow> member list \<Rightarrow> int \<Rightarrow> error + member list \<times> int" where
  "cover_bits v2m tmp ms not_covered =
     (if tmp = 0 then Inr (ms, not_covered)
      else
        case high_bit tmp of
          Inl e \<Rightarrow> Inl e
        | Inr hb \<Rightarrow>
            let flag_value = 2 ^ hb
            in case v2m flag_value of
                 Some m \<Rightarrow>
                   cover_bits v2m (tmp AND NOT flag_value) (ms @ [m])
                     (not_covered AND NOT flag_value)
               | None \<Rightarrow> cover_bits v2m (tmp AND NOT flag_value) ms not_covered)"
  by pat_completeness auto
termination
  by (relation "{}") (simp_all add: high_bit_def)

declare cover_bits.simps [simp del]

text \<open>
  The whole function.  \<open>members.sort(key=lambda m: m._value_, reverse=True)\<close> is a stable
  sort by descending value; \<open>members.pop(0)\<close> drops the head.
  \<^verbatim>\<open>
  not_covered = value
  negative = value < 0
  members = []
  (first loop)
  if not negative:
      tmp = not_covered
      (second loop)
  if not members and value in flag._value2member_map_:
      members.append(flag._value2member_map_[value])
  members.sort(key=lambda m: m._value_, reverse=True)
  if len(members) > 1 and members[0].value == value:
      members.pop(0)
  return members, not_covered
  \<close>
\<close>

definition decompose :: "flag \<Rightarrow> int \<Rightarrow> error + member list \<times> int" where
  "decompose flg v =
     (let negative = (v < 0);
          r1 = match_members (members flg) v [] v;
          r2 = (if \<not> negative then cover_bits (value2member_map flg) (snd r1) (fst r1) (snd r1)
                else Inr r1)
      in case r2 of
           Inl e \<Rightarrow> Inl e
         | Inr (ms2, not_covered) \<Rightarrow>
             let ms3 = (if ms2 = []
                        then (case value2member_map flg v of Some m \<Rightarrow> ms2 @ [m] | None \<Rightarrow> ms2)
                        else ms2);
                 ms4 = sort_key (\<lambda>m. - member_value m) ms3;
                 ms5 = (if 1 < length ms4 \<and> member_value (hd ms4) = v then tl ms4 else ms4)
             in Inr (ms5, not_covered))"

text \<open>The bitwise OR of the values of a list of members.\<close>

definition or_values :: "member list \<Rightarrow> int" where
  "or_values ms = fold (\<lambda>m acc. acc OR member_value m) ms 0"

section \<open>Streams\<close>

text \<open>
  The reader's \<open>_file\<close> is a seekable binary stream (\<open>BinaryIO\<close>): its bytes, the read
  position, and whether it has been closed.  \<open>read(n)\<close> returns the bytes from the
  position on, at most \<open>n\<close> and fewer at the end of the data, and advances the position;
  on a closed stream \<open>read\<close> and \<open>seek\<close> raise \<open>ValueError\<close>, as does a seek to a
  negative position.
\<close>

record stream =
  content :: bytes
  pos :: nat
  closed :: bool

definition stream_read :: "stream \<Rightarrow> nat \<Rightarrow> error + bytes \<times> stream" where
  "stream_read f n =
     (if closed f then Inl ValueError
      else let data = take n (drop (pos f) (content f))
           in Inr (data, f\<lparr>pos := pos f + length data\<rparr>))"

definition stream_seek :: "stream \<Rightarrow> int \<Rightarrow> error + stream" where
  "stream_seek f p =
     (if closed f \<or> p < 0 then Inl ValueError else Inr (f\<lparr>pos := nat p\<rparr>))"

text \<open>The slice \<open>b[i:j]\<close> for constant \<open>0 \<le> i \<le> j\<close>: it is shorter where \<open>b\<close> ends early.\<close>

definition slice :: "'a list \<Rightarrow> nat \<Rightarrow> nat \<Rightarrow> 'a list" where
  "slice b i j = take (j - i) (drop i b)"

text \<open>
  Modelled from the spec: \<open>SubsectionIO\<close>, which srl.py imports from \<open>pyctr.fileio\<close>, a
  module that is not among the sources.  It is the spec's subsection view: built from the parent stream, a
  base offset and a length, with its own position starting at 0; \<open>read(n)\<close> returns up to
  \<open>min(n, length - position)\<close> bytes read from the parent at \<open>baseOffset + position\<close> and
  advances the position.
\<close>

record SubsectionIO =
  sub_reader :: stream
  sub_offset :: int
  sub_size :: int
  sub_seek :: nat

definition new_SubsectionIO :: "stream \<Rightarrow> int \<Rightarrow> int \<Rightarrow> SubsectionIO" where
  "new_SubsectionIO f off sz = \<lparr>sub_reader = f, sub_offset = off, sub_size = sz, sub_seek = 0\<rparr>"

definition SubsectionIO_read :: "SubsectionIO \<Rightarrow> nat \<Rightarrow> error + bytes \<times> SubsectionIO" where
  "SubsectionIO_read v n =
     (let count = nat (min (int n) (sub_size v - int (sub_seek v)))
      in case stream_seek (sub_reader v) (sub_offset v + int (sub_seek v)) of
           Inl e \<Rightarrow> Inl e
         | Inr f1 \<Rightarrow>
             (case stream_read f1 count of
                Inl e \<Rightarrow> Inl e
              | Inr (data, f2) \<Rightarrow>
                  Inr (data, v\<lparr>sub_reader := f2, sub_seek := sub_seek v + length data\<rparr>)))"

section \<open>srl.py: the icon\<close>

definition region_names :: "string list" where
  "region_names =
     [''Japanese'', ''English'', ''French'', ''German'', ''Italian'', ''Spanish'',
      ''Simplified Chinese'', ''Korean'', ''Dutch'', ''Portuguese'', ''Russian'',
      ''Traditional Chinese'']"

definition region_order_check :: "string list" where
  "region_order_check =
     [''English'', ''Japanese'', ''French'', ''German'', ''Italian'', ''Spanish'',
      ''Simplified Chinese'', ''Korean'', ''Dutch'', ''Portuguese'', ''Russian'',
      ''Traditional Chinese'']"

definition SRLICON_SIZE :: nat where
  "SRLICON_SIZE = 0x2400"

subsection \<open>Decoded text\<close>

text \<open>
  The title records are decoded to Python \<open>str\<close> values whose characters are arbitrary
  Unicode code points, so decoded text is a list of code points.  \<open>ustr\<close> embeds a
  literal.
\<close>

type_synonym ustring = "nat list"

definition ustr :: "string \<Rightarrow> ustring" where
  "ustr s = map of_char s"

text \<open>
  \<open>bytes.decode("utf-16le")\<close> with strict error handling.  It raises
  \<open>UnicodeDecodeError\<close> on a trailing odd byte, on a low surrogate that follows no high
  surrogate, and on a high surrogate that no low surrogate follows.
\<close>

fun decode_utf16le :: "bytes \<Rightarrow> error + ustring" where
  "decode_utf16le [] = Inr []"
| "decode_utf16le [b] = Inl UnicodeDecodeError"
| "decode_utf16le [lo, hi] =
     (let u = unat lo + 256 * unat hi
      in if 0xD800 \<le> u \<and> u < 0xE000 then Inl UnicodeDecodeError else Inr [u])"
| "decode_utf16le [lo, hi, b] = Inl UnicodeDecodeError"
| "decode_utf16le (lo # hi # lo2 # hi2 # rest) =
     (let u = unat lo + 256 * unat hi; u2 = unat lo2 + 256 * unat hi2
      in if 0xD800 \<le> u \<and> u < 0xDC00
         then (if 0xDC00 \<le> u2 \<and> u2 < 0xE000
               then (case decode_utf16le rest of
                       Inl e \<Rightarrow> Inl e
                     | Inr cs \<Rightarrow> Inr ((0x10000 + (u - 0xD800) * 0x400 + (u2 - 0xDC00)) # cs))
               else Inl UnicodeDecodeError)
         else if 0xDC00 \<le> u \<and> u < 0xE000 then Inl UnicodeDecodeError
         else (case decode_utf16le (lo2 # hi2 # rest) of
                 Inl e \<Rightarrow> Inl e
               | Inr cs \<Rightarrow> Inr (u # cs)))"

text \<open>\<open>s.strip("\0")\<close>: the NUL characters at both ends go.\<close>

definition strip_nul :: "ustring \<Rightarrow> ustring" where
  "strip_nul s = rev (dropWhile (\<lambda>c. c = 0) (rev (dropWhile (\<lambda>c. c = 0) s)))"

text \<open>
  \<open>s.splitlines()\<close>: the line boundaries are the characters LF, CR, CR LF, VT, FF,
  FS, GS, RS, NEL (\<open>0x85\<close>), LINE SEPARATOR (\<open>0x2028\<close>) and PARAGRAPH SEPARATOR
  (\<open>0x2029\<close>); the boundaries are not kept, and text ending in a boundary has no empty
  last line.
\<close>

definition is_linebreak :: "nat \<Rightarrow> bool" where
  "is_linebreak c = (c \<in> {0x0A, 0x0B, 0x0C, 0x0D, 0x1C, 0x1D, 0x1E, 0x85, 0x2028, 0x2029})"

fun splitlines_from :: "ustring \<Rightarrow> ustring \<Rightarrow> ustring list" where
  "splitlines_from cur [] = (if cur = [] then [] else [cur])"
| "splitlines_from cur [c] =
     (if is_linebreak c then cur # splitlines_from [] [] else splitlines_from (cur @ [c]) [])"
| "splitlines_from cur (c # d # cs) =
     (if c = 0x0D \<and> d = 0x0A then cur # splitlines_from [] cs
      else if is_linebreak c then cur # splitlines_from [] (d # cs)
      else splitlines_from (cur @ [c]) (d # cs))"

definition splitlines :: "ustring \<Rightarrow> ustring list" where
  "splitlines s = splitlines_from [] s"

subsection \<open>\<open>AppTitle\<close> and \<open>SRLIcon\<close>\<close>

datatype AppTitle = AppTitle (short_desc: ustring) (long_desc: ustring) (publisher: ustring)

text \<open>
  \<open>names\<close> is the read-only mapping \<open>{n: names.get(n, None) for n in region_names}\<close>: its
  keys are the twelve region names, and a value is an \<open>AppTitle\<close> or Python's \<open>None\<close>.
\<close>

record SRLIcon =
  names :: "string \<rightharpoonup> AppTitle option"
  icon_regionlocks :: string
  small_icon :: bytes
  palette_icon :: bytes

definition SRLIcon_init :: "(string \<rightharpoonup> AppTitle) \<Rightarrow> string \<Rightarrow> bytes \<Rightarrow> bytes \<Rightarrow> SRLIcon" where
  "SRLIcon_init nms region_lock_allowed small palette =
     \<lparr>names = map_of (map (\<lambda>n. (n, nms n)) region_names),
      icon_regionlocks = region_lock_allowed,
      small_icon = small,
      palette_icon = palette\<rparr>"

text \<open>
  \<open>get_app_title\<close>.  The argument is one language or a tuple of languages.
  \<^verbatim>\<open>
  for lang in language:
      apptitle = self.names[lang]
      if apptitle:
          return apptitle
  return AppTitle("unknown", "unknown", "unknown")
  \<close>
  \<open>self.names[lang]\<close> raises \<open>KeyError\<close> for a name that is not a key.  In \<open>if apptitle\<close>,
  \<open>None\<close> is false and an \<open>AppTitle\<close>, a tuple of three fields, is true whatever the
  fields hold.
\<close>

datatype language_arg = LangStr string | LangTuple "string list"

fun first_title :: "SRLIcon \<Rightarrow> string list \<Rightarrow> error + AppTitle" where
  "first_title self [] = Inr (AppTitle (ustr ''unknown'') (ustr ''unknown'') (ustr ''unknown''))"
| "first_title self (lang # rest) =
     (case names self lang of
        None \<Rightarrow> Inl (KeyError lang)
      | Some None \<Rightarrow> first_title self rest
      | Some (Some apptitle) \<Rightarrow> Inr apptitle)"

definition get_app_title :: "SRLIcon \<Rightarrow> language_arg \<Rightarrow> error + AppTitle" where
  "get_app_title self language =
     (case language of
        LangStr l \<Rightarrow> first_title self [l]
      | LangTuple ls \<Rightarrow> first_title self ls)"

text \<open>
  \<open>SRLIcon.load\<close>.  The title table is \<open>srlicon[0x240:0x0A40]\<close>, cut into the records
  \<open>app_structs[x : x + 0x100]\<close> for \<open>x\<close> in \<open>range(0, 0x800, 0x100)\<close>, which \<open>zip\<close> pairs
  with \<open>region_names\<close>; each record is decoded, stripped and split into lines.
\<close>

definition title_of_lines :: "ustring list \<Rightarrow> AppTitle" where
  "title_of_lines title_string =
     (if length title_string = 3
      then AppTitle (title_string ! 0) (title_string ! 0 @ ustr '' '' @ title_string ! 1)
             (title_string ! 2)
      else if length title_string = 2
      then AppTitle (title_string ! 0) (title_string ! 0) (title_string ! 1)
      else AppTitle [] [] [])"

fun load_names ::
  "(bytes \<times> string) list \<Rightarrow> (string \<rightharpoonup> AppTitle) \<Rightarrow> error + (string \<rightharpoonup> AppTitle)" where
  "load_names [] nms = Inr nms"
| "load_names ((app_title, region) # rest) nms =
     (case decode_utf16le (slice app_title 0x0 0x100) of
        Inl e \<Rightarrow> Inl e
      | Inr s \<Rightarrow> load_names rest (nms(region \<mapsto> title_of_lines (splitlines (strip_nul s)))))"

text \<open>
  After the titles the source computes a region string from the bit mask at \<open>0x2018\<close>
  (nothing there can raise) and then overwrites it: \<open>regions = ""\<close>.  The result of
  \<open>load\<close> comes with the file object, whose position the read has moved.
\<close>

definition SRLIcon_load :: "SubsectionIO \<Rightarrow> (error + SRLIcon) \<times> SubsectionIO" where
  "SRLIcon_load fp =
     (case SubsectionIO_read fp SRLICON_SIZE of
        Inl e \<Rightarrow> (Inl e, fp)
      | Inr (srlicon, fp') \<Rightarrow>
          let app_structs = slice srlicon 0x240 0x0A40;
              records = map (\<lambda>i. slice app_structs (i * 0x100) (i * 0x100 + 0x100)) [0..<8]
          in case load_names (zip records region_names) Map.empty of
               Inl e \<Rightarrow> (Inl e, fp')
             | Inr nms \<Rightarrow>
                 let regions = '''';
                     small = slice srlicon 0x20 (0x20 + 0x200);
                     palette = slice srlicon 0x220 (0x220 + 0x20)
                 in (Inr (SRLIcon_init nms regions small palette), fp'))"

section \<open>srl.py: the reader\<close>

text \<open>
  Python compares an \<open>int\<close> with a \<open>str\<close> by \<open>==\<close> as unequal; \<open>str\<close> of an \<open>int\<close> is
  its decimal numeral.
\<close>

datatype pyval = PyInt int | PyStr string

fun py_eq :: "pyval \<Rightarrow> pyval \<Rightarrow> bool" where
  "py_eq (PyInt i) (PyInt j) = (i = j)"
| "py_eq (PyStr s) (PyStr t) = (s = t)"
| "py_eq (PyInt i) (PyStr t) = False"
| "py_eq (PyStr s) (PyInt j) = False"

fun str_nat :: "nat \<Rightarrow> string" where
  "str_nat n =
     (if n < 10 then [''0123456789'' ! n]
      else str_nat (n div 10) @ [''0123456789'' ! (n mod 10)])"

declare str_nat.simps [simp del]

fun str :: "pyval \<Rightarrow> string" where
  "str (PyInt i) = (if i < 0 then CHR ''-'' # str_nat (nat (- i)) else str_nat (nat i))"
| "str (PyStr s) = s"

text \<open>
  Modelled from the spec: the entry table \<open>self.entries\<close>, which \<open>open\<close> reads and srl.py
  never assigns.  It maps a path name to an entry of offset and size; the offset
  \<open>-1\<close> marks an entry that is not stored as a byte range.
\<close>

record Entry =
  entry_offset :: int
  entry_size :: int

text \<open>
  \<open>icon = None\<close> stands for a reader object on which the attribute \<open>icon\<close> has never been
  assigned; reading an unassigned attribute raises \<open>AttributeError\<close>.
\<close>

record SRLReader =
  reader_file :: stream
  apptitle :: bytes
  regionlocks :: string
  shortDesc :: string
  longDesc :: string
  icon_offset :: int
  icon :: "SRLIcon option"
  entries :: "string \<rightharpoonup> Entry"

definition get_icon :: "SRLReader \<Rightarrow> error + SRLIcon" where
  "get_icon self = (case icon self of None \<Rightarrow> Inl AttributeError | Some i \<Rightarrow> Inr i)"

text \<open>
  \<^verbatim>\<open>
  try:
      with SubsectionIO(self._file, self._icon_offset, SRLICON_SIZE) as f:
          self.icon = SRLIcon.load(f)
  except (Exception):
      pass
  \<close>
\<close>

definition load_icon :: "SRLReader \<Rightarrow> SRLReader" where
  "load_icon self =
     (let f = new_SubsectionIO (reader_file self) (icon_offset self) (int SRLICON_SIZE);
          (res, f') = SRLIcon_load f;
          self' = self\<lparr>reader_file := sub_reader f'\<rparr>
      in case res of
           Inl e \<Rightarrow> self'
         | Inr i \<Rightarrow> self'\<lparr>icon := Some i\<rparr>)"

text \<open>
  \<open>SRLReader.__init__\<close>, on the opened stream and the entry table.  The header reads are
  outside any \<open>try\<close>: what they raise leaves the constructor.
  \<^verbatim>\<open>
  header = self._file.read(0x180)
  unitcode = readbe(header[0x12:0x13])
  self.apptitle = header[0x0:0x12]
  self.regionlocks = ""
  ...
  if unitcode & 0x01:
      extheader = self._file.read(0xE80)
      region_lockout = readle(extheader[0x34:0x35])
      if region_lockout == "0x0": self.regionlocks = "Normal"
      elif region_lockout == "0x80": self.regionlocks = "China"
      elif region_lockout == "0x40": self.regionlocks = "Korea"
      else: self.regionlocks = str(region_lockout)
  self._icon_offset = readle(header[0x068 : 0x68 + 4])
  self._load_icon()
  \<close>
\<close>

definition region_lock_label :: "pyval \<Rightarrow> string" where
  "region_lock_label region_lockout =
     (if py_eq region_lockout (PyStr ''0x0'') then ''Normal''
      else if py_eq region_lockout (PyStr ''0x80'') then ''China''
      else if py_eq region_lockout (PyStr ''0x40'') then ''Korea''
      else str region_lockout)"

definition SRLReader_init :: "stream \<Rightarrow> (string \<rightharpoonup> Entry) \<Rightarrow> error + SRLReader" where
  "SRLReader_init fp ents =
     (case stream_read fp 0x180 of
        Inl e \<Rightarrow> Inl e
      | Inr (header, f1) \<Rightarrow>
          let unitcode = readbe (slice header 0x12 0x13)
          in case (if unitcode AND 0x01 \<noteq> 0
                   then (case stream_read f1 0xE80 of
                           Inl e \<Rightarrow> Inl e
                         | Inr (extheader, f2) \<Rightarrow>
                             Inr (f2, region_lock_label (PyInt (readle (slice extheader 0x34 0x35)))))
                   else Inr (f1, '''')) of
               Inl e \<Rightarrow> Inl e
             | Inr (f3, locks) \<Rightarrow>
                 Inr (load_icon
                        \<lparr>reader_file = f3,
                         apptitle = slice header 0x0 0x12,
                         regionlocks = locks,
                         shortDesc = '''',
                         longDesc = '''',
                         icon_offset = readle (slice header 0x068 (0x68 + 4)),
                         icon = None,
                         entries = ents\<rparr>))"

text \<open>
  \<open>SRLReader.open\<close>.  \<open>self.entries[path]\<close> raises \<open>KeyError\<close> for a path that is not a
  key, and nothing in \<open>open\<close> catches it.
  \<^verbatim>\<open>
  if normalize: path = _normalize_path(path)
  entry = self.entries[path]
  if entry.offset == -1:
      return _SRLFSOpenFile(self, path)
  else:
      return SubsectionIO(self._file, self._icon_offset, entry.size)
  \<close>
  \<open>_SRLFSOpenFile\<close> keeps the path and the entry \<open>reader.entries[path]\<close>.
\<close>

datatype open_file = SRLFSOpenFile string Entry | Subsection SubsectionIO

definition SRLReader_open :: "SRLReader \<Rightarrow> string \<Rightarrow> bool \<Rightarrow> error + open_file" where
  "SRLReader_open self path normalize_arg =
     (let path' = (if normalize_arg then normalize_path path else path)
      in case entries self path' of
           None \<Rightarrow> Inl (KeyError path')
         | Some entry \<Rightarrow>
             if entry_offset entry = - 1 then Inr (SRLFSOpenFile path' entry)
             else Inr (Subsection (new_SubsectionIO (reader_file self) (icon_offset self) (entry_size entry))))"

section \<open>Properties\<close>

subsection \<open>Path normalization\<close>

lemma startswith_slash: "startswith p ''/'' = (\<exists>q. p = CHR ''/'' # q)"
  by (cases p) (auto simp: startswith_def)

text \<open>
  C6 (the code departs from the claim).  The claim: \<open>"/" + name + ".bin"\<close> and \<open>name\<close>
  normalize to the same string.  The code keeps the first four characters of a name ending
  in \<open>.bin\<close> instead of dropping the last four: \<open>"/foo.bin"\<close> becomes \<open>"foo."\<close>, while
  \<open>"foo"\<close> stays \<open>"foo"\<close>.
\<close>

theorem normalize_path_bin_suffix_kept:
  "normalize_path ''/foo.bin'' = ''foo.'' \<and> normalize_path ''foo'' = ''foo''
   \<and> normalize_path ''/foo.bin'' \<noteq> normalize_path ''foo''"
  by (simp add: normalize_path_def startswith_def endswith_def lower_def lower_char_def)

text \<open>
  C7 as stated fails: only one leading separator is stripped, so a path beginning with two
  separators loses one at each application.
\<close>

theorem normalize_path_not_idempotent:
  "normalize_path (normalize_path ''//a'') \<noteq> normalize_path ''//a''"
  by (simp add: normalize_path_def startswith_def endswith_def lower_def lower_char_def)

text \<open>
  C7 (amended).  For every path that does not begin with two separators, normalizing twice
  gives the same string as normalizing once.
\<close>

theorem normalize_path_idempotent:
  "\<not> startswith p ''//'' \<Longrightarrow> normalize_path (normalize_path p) = normalize_path p"
proof (cases p)
  case Nil
  then show ?thesis
    by (simp add: normalize_path_def startswith_def endswith_def lower_def)
next
  case (Cons a q)
  assume "\<not> startswith p ''//''"
  with Cons show ?thesis
    by (cases q) (auto simp add: normalize_path_def startswith_def endswith_def lower_def Let_def)
qed

theorem normalize_path_idempotent_witness:
  "\<not> startswith ''/Icon.BIN'' ''//''
   \<and> normalize_path (normalize_path ''/Icon.BIN'') = normalize_path ''/Icon.BIN''
   \<and> normalize_path ''/Icon.BIN'' = ''Icon''"
proof -
  have h: "\<not> startswith ''/Icon.BIN'' ''//''"
    by (simp add: startswith_def)
  have v: "normalize_path ''/Icon.BIN'' = ''Icon''"
    by code_simp
  show ?thesis
    using h v normalize_path_idempotent [OF h] by simp
qed

text \<open>
  The condition is the exact one: a path beginning with two separators still begins with
  one after normalization, and the next application shortens it.
\<close>

lemma normalize_path_shortens:
  "startswith x ''/'' \<Longrightarrow> length (normalize_path x) < length x"
  by (cases x) (auto simp add: normalize_path_def startswith_def Let_def)

lemma normalize_path_keeps_second_slash:
  "startswith p ''//'' \<Longrightarrow> startswith (normalize_path p) ''/''"
proof -
  assume "startswith p ''//''"
  then obtain q where "p = CHR ''/'' # CHR ''/'' # q"
    by (cases p; cases "tl p") (auto simp: startswith_def)
  then show ?thesis
    by (auto simp add: normalize_path_def startswith_def Let_def)
qed

lemma normalize_path_double_slash:
  "startswith p ''//'' \<Longrightarrow> normalize_path (normalize_path p) \<noteq> normalize_path p"
  using normalize_path_shortens [OF normalize_path_keeps_second_slash, of p] by auto

subsection \<open>\<open>roundup\<close>\<close>

text \<open>On small inputs the division is exact and \<open>roundup\<close> rounds up.\<close>

lemma roundup_small:
  "roundup 7 4 = Inr 8 \<and> roundup 8 4 = Inr 8 \<and> roundup 7 0 = Inl ZeroDivisionError"
proof -
  have b: "bit_length 7 = 3" "bit_length 4 = 3" "bit_length 8 = 4"
    by (simp_all add: bit_length.simps)
  have t: "true_divide 7 4 = Inr \<lparr>mant = 7881299347898368, expo = - 52\<rparr>"
    "true_divide 8 4 = Inr \<lparr>mant = 4503599627370496, expo = - 51\<rparr>"
    by (simp_all add: true_divide_def round_half_even_def Let_def b)
  show ?thesis
    by (simp add: roundup_def ceil_def t) (simp add: true_divide_def)
qed

text \<open>
  C8 (the code departs from the claim).  The claim: for positive \<open>x\<close> and \<open>a\<close> the result
  is at least \<open>x\<close>, exactly, however large the inputs.  The quotient goes through a double:
  \<open>2 ^ 53 + 1\<close> divided by 1 rounds to \<open>2 ^ 53\<close>, so the result is below \<open>x\<close>.
\<close>

theorem roundup_below_offset:
  "roundup 9007199254740993 1 = Inr 9007199254740992
   \<and> (9007199254740992 :: int) < 9007199254740993"
proof -
  have b1: "bit_length 9007199254740993 = 54"
    by (simp add: bit_length.simps)
  have b2: "bit_length (Suc 0) = 1"
    by (simp add: bit_length.simps)
  have t: "true_divide 9007199254740993 1 = Inr \<lparr>mant = 4503599627370496, expo = 1\<rparr>"
    by (simp add: true_divide_def round_half_even_def Let_def b1 b2)
  show ?thesis
    by (simp add: roundup_def ceil_def t)
qed

subsection \<open>\<open>decompose\<close>\<close>

lemma bit_fold_or:
  "bit (fold (\<lambda>m acc. acc OR member_value m) ms a) n
     = (bit a n \<or> (\<exists>m\<in>set ms. bit (member_value m) n))"
  by (induction ms arbitrary: a) (auto simp: bit_simps)

lemma bit_or_values: "bit (or_values ms) n = (\<exists>m\<in>set ms. bit (member_value m) n)"
  by (simp add: or_values_def bit_fold_or)

lemma or_values_cong_set: "set ms = set ms' \<Longrightarrow> or_values ms = or_values ms'"
  by (rule bit_eqI) (simp add: bit_or_values)

lemma or_values_Cons: "or_values (m # ms) = member_value m OR or_values ms"
  by (rule bit_eqI) (auto simp: bit_or_values bit_simps)

lemma and_not_or: "(nc AND NOT a) AND NOT b = nc AND NOT (a OR b)" for nc a b :: int
  by (rule bit_eqI) (auto simp: bit_simps)

lemma match_members_eq:
  "match_members xs v ms nc =
     (ms @ filter (\<lambda>m. member_value m \<noteq> 0 \<and> member_value m AND v = member_value m) xs,
      nc AND NOT (or_values
        (filter (\<lambda>m. member_value m \<noteq> 0 \<and> member_value m AND v = member_value m) xs)))"
proof (induction xs arbitrary: ms nc)
  case Nil
  then show ?case by (simp add: or_values_def)
next
  case (Cons m rest)
  then show ?case
    by (simp add: or_values_Cons and_not_or)
qed

lemma cover_bits_zero: "cover_bits v2m 0 ms nc = Inr (ms, nc)"
  by (simp add: cover_bits.simps)

lemma cover_bits_nonzero: "tmp \<noteq> 0 \<Longrightarrow> cover_bits v2m tmp ms nc = Inl NameError"
  by (simp add: cover_bits.simps high_bit_def)

lemma submask_or:
  fixes v :: int
  shows "or_values (filter (\<lambda>m. member_value m \<noteq> 0 \<and> member_value m AND v = member_value m) xs)
         OR (v AND NOT (or_values
               (filter (\<lambda>m. member_value m \<noteq> 0 \<and> member_value m AND v = member_value m) xs))) = v"
proof (rule bit_eqI)
  fix n
  let ?ms = "filter (\<lambda>m. member_value m \<noteq> 0 \<and> member_value m AND v = member_value m) xs"
  have "bit (or_values ?ms) n \<Longrightarrow> bit v n"
  proof -
    assume "bit (or_values ?ms) n"
    then obtain m where "m \<in> set ?ms" "bit (member_value m) n"
      by (auto simp: bit_or_values)
    then have "member_value m AND v = member_value m" "bit (member_value m) n"
      by auto
    then show "bit v n"
      by (metis bit_and_iff)
  qed
  then show "bit (or_values ?ms OR (v AND NOT (or_values ?ms))) n = bit v n"
    by (auto simp: bit_simps)
qed

text \<open>
  C9 as stated fails.  With members \<open>A = 1\<close> and \<open>AB = 3\<close> the input 3 matches both in the
  first loop, which leaves nothing uncovered; the member equal to the input is then dropped
  in favour of its breakdown, and what is returned, \<open>[A]\<close> with residual 0, gives back 1,
  not 3.  And the negative input \<open>-2\<close>, which contains no member of a table holding
  \<open>A = 1\<close> alone, has an empty member list without being zero.
\<close>

theorem decompose_drops_exact_member:
  "decompose
     \<lparr>members = [\<lparr>member_name = ''A'', member_value = 1\<rparr>,
                 \<lparr>member_name = ''AB'', member_value = 3\<rparr>],
      value2member_map = map_of [(1, \<lparr>member_name = ''A'', member_value = 1\<rparr>),
                                 (3, \<lparr>member_name = ''AB'', member_value = 3\<rparr>)]\<rparr> 3
     = Inr ([\<lparr>member_name = ''A'', member_value = 1\<rparr>], 0)
   \<and> or_values [\<lparr>member_name = ''A'', member_value = 1\<rparr>] OR 0 \<noteq> 3
   \<and> decompose
     \<lparr>members = [\<lparr>member_name = ''A'', member_value = 1\<rparr>],
      value2member_map = map_of [(1, \<lparr>member_name = ''A'', member_value = 1\<rparr>)]\<rparr> (- 2)
     = Inr ([], - 2)"
  by (simp add: decompose_def cover_bits_zero Let_def or_values_def)

text \<open>
  C9 (amended).  Let the input be the value of no member (the precondition the source
  comment records: the function is only called if the value is not named), and let it be
  negative or have every set bit covered by the members it contains, so that the second
  loop has nothing to do.  Then \<open>decompose\<close> returns the members of the table whose non-zero
  value is contained in the input, in descending order of value, and as residual the
  input without their bits; the OR of the returned members' values together with the
  residual is the input; and for input zero the member list is empty.
\<close>

theorem decompose_reconstructs:
  assumes unnamed: "\<forall>m\<in>set (members flg). member_value m \<noteq> v"
    and unkeyed: "value2member_map flg v = None"
    and covered: "v < 0 \<or> v AND NOT (or_values
          (filter (\<lambda>m. member_value m \<noteq> 0 \<and> member_value m AND v = member_value m) (members flg))) = 0"
  shows "decompose flg v =
           Inr (sort_key (\<lambda>m. - member_value m)
                  (filter (\<lambda>m. member_value m \<noteq> 0 \<and> member_value m AND v = member_value m)
                     (members flg)),
                v AND NOT (or_values
                  (filter (\<lambda>m. member_value m \<noteq> 0 \<and> member_value m AND v = member_value m)
                     (members flg))))
       \<and> or_values (sort_key (\<lambda>m. - member_value m)
                  (filter (\<lambda>m. member_value m \<noteq> 0 \<and> member_value m AND v = member_value m)
                     (members flg)))
           OR (v AND NOT (or_values
                  (filter (\<lambda>m. member_value m \<noteq> 0 \<and> member_value m AND v = member_value m)
                     (members flg)))) = v
       \<and> (v = 0 \<longrightarrow>
            filter (\<lambda>m. member_value m \<noteq> 0 \<and> member_value m AND v = member_value m) (members flg) = [])"
proof -
  let ?P = "\<lambda>m. member_value m \<noteq> 0 \<and> member_value m AND v = member_value m"
  let ?ms = "filter ?P (members flg)"
  let ?nc = "v AND NOT (or_values ?ms)"
  let ?ms4 = "sort_key (\<lambda>m. - member_value m) ?ms"
  have r1: "match_members (members flg) v [] v = (?ms, ?nc)"
    by (simp add: match_members_eq)
  have r2: "(if \<not> v < 0 then cover_bits (value2member_map flg) ?nc ?ms ?nc else Inr (?ms, ?nc))
              = Inr (?ms, ?nc)"
    using covered by (auto simp: cover_bits_zero)
  have ms3: "(if ?ms = [] then (case value2member_map flg v of Some m \<Rightarrow> ?ms @ [m] | None \<Rightarrow> ?ms)
              else ?ms) = ?ms"
    using unkeyed by simp
  have hd4: "\<not> (1 < length ?ms4 \<and> member_value (hd ?ms4) = v)"
  proof
    assume a: "1 < length ?ms4 \<and> member_value (hd ?ms4) = v"
    then have "0 < length ?ms4" by linarith
    then have "?ms4 \<noteq> []" by (rule length_greater_0_conv [THEN iffD1])
    then have "hd ?ms4 \<in> set ?ms4" by (rule hd_in_set)
    then have "hd ?ms4 \<in> set (members flg)" by simp
    with unnamed a show False by auto
  qed
  have d: "decompose flg v = Inr (?ms4, ?nc)"
    unfolding decompose_def Let_def r1 fst_conv snd_conv r2 sum.case prod.case ms3
    using hd4 by auto
  have "or_values ?ms4 = or_values ?ms"
    by (rule or_values_cong_set) simp
  then have o: "or_values ?ms4 OR ?nc = v"
    by (simp only: submask_or)
  have z: "v = 0 \<longrightarrow> ?ms = []"
    by (auto simp: filter_empty_conv)
  from d o z show ?thesis
    by blast
qed

theorem decompose_reconstructs_witness:
  "value2member_map
     \<lparr>members = [\<lparr>member_name = ''A'', member_value = 1\<rparr>,
                 \<lparr>member_name = ''B'', member_value = 2\<rparr>,
                 \<lparr>member_name = ''C'', member_value = 4\<rparr>],
      value2member_map = map_of [(1, \<lparr>member_name = ''A'', member_value = 1\<rparr>),
                                 (2, \<lparr>member_name = ''B'', member_value = 2\<rparr>),
                                 (4, \<lparr>member_name = ''C'', member_value = 4\<rparr>)]\<rparr> 3 = None
   \<and> decompose
     \<lparr>members = [\<lparr>member_name = ''A'', member_value = 1\<rparr>,
                 \<lparr>member_name = ''B'', member_value = 2\<rparr>,
                 \<lparr>member_name = ''C'', member_value = 4\<rparr>],
      value2member_map = map_of [(1, \<lparr>member_name = ''A'', member_value = 1\<rparr>),
                                 (2, \<lparr>member_name = ''B'', member_value = 2\<rparr>),
                                 (4, \<lparr>member_name = ''C'', member_value = 4\<rparr>)]\<rparr> 3
     = Inr ([\<lparr>member_name = ''B'', member_value = 2\<rparr>,
             \<lparr>member_name = ''A'', member_value = 1\<rparr>], 0)
   \<and> or_values [\<lparr>member_name = ''B'', member_value = 2\<rparr>,
                  \<lparr>member_name = ''A'', member_value = 1\<rparr>] OR 0 = 3"
proof -
  let ?F = "\<lparr>members = [\<lparr>member_name = ''A'', member_value = 1\<rparr>,
                 \<lparr>member_name = ''B'', member_value = 2\<rparr>,
                 \<lparr>member_name = ''C'', member_value = 4\<rparr>],
      value2member_map = map_of [(1, \<lparr>member_name = ''A'', member_value = 1\<rparr>),
                                 (2, \<lparr>member_name = ''B'', member_value = 2\<rparr>),
                                 (4, \<lparr>member_name = ''C'', member_value = 4\<rparr>)]\<rparr>"
  have f: "filter (\<lambda>m. member_value m \<noteq> 0 \<and> member_value m AND 3 = member_value m) (members ?F)
       = [\<lparr>member_name = ''A'', member_value = 1\<rparr>, \<lparr>member_name = ''B'', member_value = 2\<rparr>]"
    by simp
  have h1: "\<forall>m\<in>set (members ?F). member_value m \<noteq> 3"
    by simp
  have h2: "value2member_map ?F 3 = None"
    by simp
  have h3: "(3::int) < 0 \<or> 3 AND NOT (or_values
          (filter (\<lambda>m. member_value m \<noteq> 0 \<and> member_value m AND 3 = member_value m) (members ?F))) = 0"
    unfolding f by (simp add: or_values_def)
  from decompose_reconstructs [OF h1 h2 h3] show ?thesis
    unfolding f by (simp add: or_values_def)
qed

text \<open>
  The inputs left out above: a non-negative input with a bit that no contained member
  covers enters the second loop, whose call of \<open>_high_bit\<close> raises.
\<close>

lemma decompose_uncovered_raises:
  assumes "0 \<le> v"
    and "v AND NOT (or_values
          (filter (\<lambda>m. member_value m \<noteq> 0 \<and> member_value m AND v = member_value m) (members flg))) \<noteq> 0"
  shows "decompose flg v = Inl NameError"
  using assms by (simp add: decompose_def Let_def match_members_eq cover_bits_nonzero)

lemma decompose_raises_example:
  "decompose
     \<lparr>members = [\<lparr>member_name = ''A'', member_value = 1\<rparr>],
      value2member_map = map_of [(1, \<lparr>member_name = ''A'', member_value = 1\<rparr>)]\<rparr> 2
   = Inl NameError"
  by (simp add: decompose_def cover_bits_nonzero Let_def)

subsection \<open>The reader and the icon\<close>

lemma load_icon_keeps:
  "regionlocks (load_icon s) = regionlocks s"
  "icon_offset (load_icon s) = icon_offset s"
  "entries (load_icon s) = entries s"
  "apptitle (load_icon s) = apptitle s"
  by (simp_all add: load_icon_def Let_def split: prod.splits sum.splits)

lemma load_icon_icon:
  "icon (load_icon s) =
     (case fst (SRLIcon_load (new_SubsectionIO (reader_file s) (icon_offset s) (int SRLICON_SIZE))) of
        Inl e \<Rightarrow> icon s
      | Inr i \<Rightarrow> Some i)"
  by (simp add: load_icon_def Let_def split: prod.splits sum.splits)

lemma init_closed: "closed fp \<Longrightarrow> SRLReader_init fp ents = Inl ValueError"
  by (simp add: SRLReader_init_def stream_read_def)

lemma init_open:
  assumes "\<not> closed fp"
  shows "\<exists>s. SRLReader_init fp ents = Inr (load_icon s) \<and> icon s = None \<and> entries s = ents
           \<and> reader_file s =
               fp\<lparr>pos := pos fp + length (take 0x180 (drop (pos fp) (content fp)))
                     + (if readbe (slice (take 0x180 (drop (pos fp) (content fp))) 0x12 0x13) AND 0x01 \<noteq> 0
                        then length (take 0xE80 (drop (pos fp + length (take 0x180 (drop (pos fp) (content fp))))
                                                    (content fp)))
                        else 0)\<rparr>
           \<and> apptitle s = slice (take 0x180 (drop (pos fp) (content fp))) 0x0 0x12
           \<and> icon_offset s = readle (slice (take 0x180 (drop (pos fp) (content fp))) 0x68 0x6C)
           \<and> regionlocks s =
               (if readbe (slice (take 0x180 (drop (pos fp) (content fp))) 0x12 0x13) AND 0x01 \<noteq> 0
                then region_lock_label (PyInt (readle (slice
                       (take 0xE80 (drop (pos fp + length (take 0x180 (drop (pos fp) (content fp)))) (content fp)))
                       0x34 0x35)))
                else '''')"
  using assms by (auto simp add: SRLReader_init_def stream_read_def Let_def)

lemma region_lock_label_int: "region_lock_label (PyInt i) = str (PyInt i)"
  by (simp add: region_lock_label_def)


lemma str_128: "str_nat 128 = ''128''"
  by (simp add: str_nat.simps)

lemma readle_single: "readle [b] = uint b"
  by (simp add: readle_def)

lemma readbe_single: "readbe [b] = uint b"
  by (simp add: readbe_def)

text \<open>
  C1 (the code departs from the claim).  The claim: with the low bit of the unit code set,
  the region-lockout byte \<open>0x80\<close> is mapped to the label \<open>China\<close>.  The code compares the
  decoded integer with the strings \<open>"0x0"\<close>, \<open>"0x80"\<close> and \<open>"0x40"\<close>; an integer equals no
  string, so every value takes the last branch.  On a container whose byte \<open>0x12\<close> is 1
  and whose extended-header byte \<open>0x34\<close> is \<open>0x80\<close> the label is the decimal numeral
  \<open>"128"\<close>.
\<close>

theorem region_lockout_china_stringified:
  "map_sum id regionlocks
     (SRLReader_init
        \<lparr>content = replicate 18 0 @ [1] @ replicate 417 0 @ [0x80], pos = 0, closed = False\<rparr>
        Map.empty)
   = Inr ''128''"
proof -
  let ?fp = "\<lparr>content = replicate 18 0 @ [1] @ replicate 417 0 @ [0x80 :: byte], pos = 0, closed = False\<rparr>"
  have "\<not> closed ?fp" by simp
  from init_open [OF this, of Map.empty] obtain s where
    r: "SRLReader_init ?fp Map.empty = Inr (load_icon s)" and
    l: "regionlocks s =
               (if readbe (slice (take 0x180 (drop (pos ?fp) (content ?fp))) 0x12 0x13) AND 0x01 \<noteq> 0
                then region_lock_label (PyInt (readle (slice
                       (take 0xE80 (drop (pos ?fp + length (take 0x180 (drop (pos ?fp) (content ?fp)))) (content ?fp)))
                       0x34 0x35)))
                else [])"
    by blast
  have "regionlocks s = ''128''"
    unfolding l by (simp add: slice_def readbe_single readle_single region_lock_label_int str_128)
  with r show ?thesis
    by (simp add: load_icon_keeps)
qed


text \<open>
  C3.  For every path that does not resolve to an entry of the entry table (after
  normalization, where that is asked for), \<open>open\<close> fails: the lookup raises its
  entry-not-found error, Python's \<open>KeyError\<close> on the path looked up, and \<open>open\<close> hands it to
  the caller as its result.
\<close>

theorem open_missing_raises:
  "entries self (if normalize_arg then normalize_path path else path) = None
     \<Longrightarrow> SRLReader_open self path normalize_arg
           = Inl (KeyError (if normalize_arg then normalize_path path else path))"
  by (simp add: SRLReader_open_def Let_def)

lemma names_init:
  "names (SRLIcon_init nms r s p) l = (if l \<in> set region_names then Some (nms l) else None)"
  by (simp add: SRLIcon_init_def map_of_map_restrict restrict_map_def)

lemma load_is_init:
  "SRLIcon_load fp = (Inr icn, fp') \<Longrightarrow> \<exists>nms r s p. icn = SRLIcon_init nms r s p"
  by (auto simp add: SRLIcon_load_def Let_def split: sum.splits prod.splits)

lemma first_title_present:
  "\<forall>l\<in>set ls. names icn l \<noteq> None \<Longrightarrow>
   first_title icn ls =
     Inr (case concat (map (\<lambda>l. case names icn l of Some (Some t) \<Rightarrow> [t] | _ \<Rightarrow> []) ls) of
            [] \<Rightarrow> AppTitle (ustr ''unknown'') (ustr ''unknown'') (ustr ''unknown'')
          | t # _ \<Rightarrow> t)"
proof (induction ls)
  case Nil
  then show ?case by simp
next
  case (Cons l ls)
  then obtain v where v: "names icn l = Some v" by auto
  show ?case
  proof (cases v)
    case None
    with v Cons show ?thesis by simp
  next
    case (Some t)
    with v show ?thesis by simp
  qed
qed

text \<open>
  C5 (amended).  For every loaded icon and every preference order taken from the twelve
  region names (one name or a tuple of names), \<open>get_app_title\<close> returns a value without
  failing: the first title present (not \<open>None\<close>) in preference order, also when the fields
  of that title are empty strings, and the triple \<open>("unknown", "unknown", "unknown")\<close> when
  no preferred language has a title present.
\<close>

theorem get_app_title_returns:
  assumes "fst (SRLIcon_load fp) = Inr icn"
    and "set (case language of LangStr l \<Rightarrow> [l] | LangTuple ls \<Rightarrow> ls) \<subseteq> set region_names"
  shows "get_app_title icn language =
     Inr (case concat (map (\<lambda>l. case names icn l of Some (Some t) \<Rightarrow> [t] | _ \<Rightarrow> [])
                        (case language of LangStr l \<Rightarrow> [l] | LangTuple ls \<Rightarrow> ls)) of
            [] \<Rightarrow> AppTitle (ustr ''unknown'') (ustr ''unknown'') (ustr ''unknown'')
          | t # _ \<Rightarrow> t)"
proof -
  let ?ls = "case language of LangStr l \<Rightarrow> [l] | LangTuple ls \<Rightarrow> ls"
  from assms(1) obtain fp' where "SRLIcon_load fp = (Inr icn, fp')"
    by (cases "SRLIcon_load fp") auto
  from load_is_init [OF this] obtain nms r s p where "icn = SRLIcon_init nms r s p"
    by blast
  with assms(2) have "\<forall>l\<in>set ?ls. names icn l \<noteq> None"
    by (auto simp: names_init)
  from first_title_present [OF this] show ?thesis
    by (cases language) (simp_all add: get_app_title_def)
qed


lemma upt_8: "[0..<8] = [0, 1, 2, 3, 4, 5, 6, 7 :: nat]"
  by code_simp

lemma decode_empty: "title_of_lines (splitlines (strip_nul [])) = AppTitle [] [] []"
  by (simp add: title_of_lines_def splitlines_def strip_nul_def)

lemma load_empty:
  "fst (SRLIcon_load (new_SubsectionIO \<lparr>content = [], pos = p, closed = False\<rparr> 0 0x2400))
   = Inr (SRLIcon_init
            [''Japanese'' \<mapsto> AppTitle [] [] [], ''English'' \<mapsto> AppTitle [] [] [],
             ''French'' \<mapsto> AppTitle [] [] [], ''German'' \<mapsto> AppTitle [] [] [],
             ''Italian'' \<mapsto> AppTitle [] [] [], ''Spanish'' \<mapsto> AppTitle [] [] [],
             ''Simplified Chinese'' \<mapsto> AppTitle [] [] [], ''Korean'' \<mapsto> AppTitle [] [] []]
            [] [] [])"
  by (simp add: SRLIcon_load_def SubsectionIO_read_def new_SubsectionIO_def stream_seek_def
      stream_read_def SRLICON_SIZE_def slice_def region_names_def decode_empty Let_def upt_8)

lemma load_short:
  "fst (SRLIcon_load (new_SubsectionIO \<lparr>content = replicate 577 0, pos = p, closed = False\<rparr> 0 0x2400))
   = Inl UnicodeDecodeError"
  by (simp add: SRLIcon_load_def SubsectionIO_read_def new_SubsectionIO_def stream_seek_def
      stream_read_def SRLICON_SIZE_def slice_def region_names_def Let_def upt_8)

lemma load_surrogate:
  "fst (SRLIcon_load (new_SubsectionIO \<lparr>content = replicate 576 0 @ [0x00, 0xDC], pos = p, closed = False\<rparr> 0 0x2400))
   = Inl UnicodeDecodeError"
  by (simp add: SRLIcon_load_def SubsectionIO_read_def new_SubsectionIO_def stream_seek_def
      stream_read_def SRLICON_SIZE_def slice_def region_names_def Let_def upt_8)


lemma readle_zeros: "readle (replicate n 0) = 0"
  by (induction n) (simp_all add: readle_def)

lemma readbe_zeros: "readbe (replicate n 0) = 0"
proof -
  have "fold (\<lambda>x acc. 256 * acc + uint x) (replicate n (0::byte)) 0 = 0"
    by (induction n) simp_all
  then show ?thesis by (simp add: readbe_def)
qed

text \<open>
  C4.  For every input stream whose primary header can be read (a stream that is open),
  construction succeeds: it returns the reader that \<open>_load_icon\<close> leaves, and whatever
  exception reading or decoding the icon block raises, that reader has no icon.  No error
  of the icon step is a result of construction.
\<close>

theorem init_survives_icon_failure:
  "\<not> closed fp \<Longrightarrow>
   \<exists>s. SRLReader_init fp ents = Inr (load_icon s) \<and> icon s = None
     \<and> (\<forall>e. fst (SRLIcon_load (new_SubsectionIO (reader_file s) (icon_offset s) (int SRLICON_SIZE))) = Inl e
            \<longrightarrow> icon (load_icon s) = None)"
proof -
  assume "\<not> closed fp"
  from init_open [OF this, of ents] obtain s where
    s: "SRLReader_init fp ents = Inr (load_icon s)" "icon s = None"
    by blast
  then show ?thesis
    by (auto simp add: load_icon_icon)
qed

lemma init_zeros_577:
  "\<exists>s. SRLReader_init \<lparr>content = replicate 577 0, pos = 0, closed = False\<rparr> ents = Inr (load_icon s)
     \<and> icon s = None
     \<and> reader_file s = \<lparr>content = replicate 577 0, pos = 384, closed = False\<rparr>
     \<and> icon_offset s = 0"
proof -
  let ?fp = "\<lparr>content = replicate 577 (0::byte), pos = 0, closed = False\<rparr>"
  have "\<not> closed ?fp" by simp
  from init_open [OF this, of ents] obtain s where
    s: "SRLReader_init ?fp ents = Inr (load_icon s)" "icon s = None"
    and f: "reader_file s =
               ?fp\<lparr>pos := pos ?fp + length (take 0x180 (drop (pos ?fp) (content ?fp)))
                     + (if readbe (slice (take 0x180 (drop (pos ?fp) (content ?fp))) 0x12 0x13) AND 0x01 \<noteq> 0
                        then length (take 0xE80 (drop (pos ?fp + length (take 0x180 (drop (pos ?fp) (content ?fp))))
                                                    (content ?fp)))
                        else 0)\<rparr>"
    and o: "icon_offset s = readle (slice (take 0x180 (drop (pos ?fp) (content ?fp))) 0x68 0x6C)"
    by blast
  have f': "reader_file s = \<lparr>content = replicate 577 0, pos = 384, closed = False\<rparr>"
    unfolding f by (simp add: slice_def readbe_single)
  have o': "icon_offset s = 0"
    unfolding o by (simp add: slice_def readle_zeros)
  from s f' o' show ?thesis by blast
qed

theorem init_survives_icon_failure_witness:
  "\<not> closed \<lparr>content = replicate 577 0, pos = 0, closed = False\<rparr>
   \<and> (\<exists>s. SRLReader_init \<lparr>content = replicate 577 0, pos = 0, closed = False\<rparr> Map.empty
             = Inr (load_icon s)
         \<and> icon s = None
         \<and> (\<forall>e. fst (SRLIcon_load (new_SubsectionIO (reader_file s) (icon_offset s) (int SRLICON_SIZE))) = Inl e
                \<longrightarrow> icon (load_icon s) = None))
   \<and> fst (SRLIcon_load (new_SubsectionIO \<lparr>content = replicate 577 0, pos = 384, closed = False\<rparr> 0 0x2400))
       = Inl UnicodeDecodeError
   \<and> map_sum id icon (SRLReader_init \<lparr>content = replicate 577 0, pos = 0, closed = False\<rparr> Map.empty)
       = Inr None"
proof -
  let ?fp = "\<lparr>content = replicate 577 (0::byte), pos = 0, closed = False\<rparr>"
  have h: "\<not> closed ?fp" by simp
  from init_zeros_577 [of Map.empty] obtain s where
    s: "SRLReader_init ?fp Map.empty = Inr (load_icon s)" "icon s = None"
       "reader_file s = \<lparr>content = replicate 577 0, pos = 384, closed = False\<rparr>" "icon_offset s = 0"
    by blast
  have "icon (load_icon s) = None"
    by (simp add: load_icon_icon s SRLICON_SIZE_def load_short)
  with s have v: "map_sum id icon (SRLReader_init ?fp Map.empty) = Inr None"
    by simp
  from init_survives_icon_failure [OF h, of Map.empty] h v load_short [of 384] show ?thesis
    by blast
qed


lemma load_icon_file:
  "reader_file (load_icon s) =
     sub_reader (snd (SRLIcon_load (new_SubsectionIO (reader_file s) (icon_offset s) (int SRLICON_SIZE))))"
  by (simp add: load_icon_def Let_def split: prod.splits sum.splits)

lemma load_empty_file:
  "snd (SRLIcon_load (new_SubsectionIO \<lparr>content = [], pos = 0, closed = False\<rparr> 0 0x2400))
   = \<lparr>sub_reader = \<lparr>content = [], pos = 0, closed = False\<rparr>, sub_offset = 0, sub_size = 0x2400,
      sub_seek = 0\<rparr>"
  by (simp add: SRLIcon_load_def SubsectionIO_read_def new_SubsectionIO_def stream_seek_def
      stream_read_def SRLICON_SIZE_def slice_def region_names_def decode_empty Let_def upt_8)

lemma init_empty:
  "\<exists>s. SRLReader_init \<lparr>content = [], pos = 0, closed = False\<rparr> ents = Inr (load_icon s)
     \<and> reader_file s = \<lparr>content = [], pos = 0, closed = False\<rparr>
     \<and> icon_offset s = 0 \<and> entries s = ents"
proof -
  let ?fp = "\<lparr>content = ([] :: bytes), pos = 0, closed = False\<rparr>"
  have "\<not> closed ?fp" by simp
  from init_open [OF this, of ents] obtain s where
    s: "SRLReader_init ?fp ents = Inr (load_icon s)" "entries s = ents"
    and f: "reader_file s =
               ?fp\<lparr>pos := pos ?fp + length (take 0x180 (drop (pos ?fp) (content ?fp)))
                     + (if readbe (slice (take 0x180 (drop (pos ?fp) (content ?fp))) 0x12 0x13) AND 0x01 \<noteq> 0
                        then length (take 0xE80 (drop (pos ?fp + length (take 0x180 (drop (pos ?fp) (content ?fp))))
                                                    (content ?fp)))
                        else 0)\<rparr>"
    and o: "icon_offset s = readle (slice (take 0x180 (drop (pos ?fp) (content ?fp))) 0x68 0x6C)"
    by blast
  have f': "reader_file s = \<lparr>content = [], pos = 0, closed = False\<rparr>"
    unfolding f by (simp add: slice_def readbe_def)
  have o': "icon_offset s = 0"
    unfolding o by (simp add: slice_def readle_def)
  from s f' o' show ?thesis by blast
qed

text \<open>
  C2 (the code departs from the claim).  The claim: the view \<open>open\<close> returns starts at the
  entry's offset.  The code passes \<open>self._icon_offset\<close> as the base of the view.  On a
  reader whose icon offset is 0, the entry \<open>icon\<close> of offset \<open>0x200\<close> and size \<open>0x10\<close> is
  opened as a view starting at 0.
\<close>

theorem open_window_at_icon_offset:
  "map_sum id (\<lambda>r. SRLReader_open r ''/icon.bin'' True)
     (SRLReader_init \<lparr>content = [], pos = 0, closed = False\<rparr>
        [''icon'' \<mapsto> \<lparr>entry_offset = 0x200, entry_size = 0x10\<rparr>])
   = Inr (Inr (Subsection \<lparr>sub_reader = \<lparr>content = [], pos = 0, closed = False\<rparr>,
                           sub_offset = 0, sub_size = 0x10, sub_seek = 0\<rparr>))"
proof -
  let ?ents = "[''icon'' \<mapsto> \<lparr>entry_offset = 0x200, entry_size = 0x10\<rparr>]"
  from init_empty [of ?ents] obtain s where
    s: "SRLReader_init \<lparr>content = [], pos = 0, closed = False\<rparr> ?ents = Inr (load_icon s)"
       "reader_file s = \<lparr>content = [], pos = 0, closed = False\<rparr>" "icon_offset s = 0"
       "entries s = ?ents"
    by blast
  have n: "normalize_path ''/icon.bin'' = ''icon''"
    by code_simp
  have f: "reader_file (load_icon s) = \<lparr>content = [], pos = 0, closed = False\<rparr>"
    by (simp add: load_icon_file s SRLICON_SIZE_def load_empty_file)
  have "SRLReader_open (load_icon s) ''/icon.bin'' True
      = Inr (Subsection \<lparr>sub_reader = \<lparr>content = [], pos = 0, closed = False\<rparr>,
                           sub_offset = 0, sub_size = 0x10, sub_seek = 0\<rparr>)"
    by (simp add: SRLReader_open_def n f load_icon_keeps s new_SubsectionIO_def)
  with s show ?thesis by simp
qed

theorem open_missing_raises_witness:
  "entries \<lparr>reader_file = \<lparr>content = [], pos = 0, closed = False\<rparr>, apptitle = [], regionlocks = [],
             shortDesc = [], longDesc = [], icon_offset = 0, icon = None,
             entries = [''icon'' \<mapsto> \<lparr>entry_offset = 0x200, entry_size = 0x10\<rparr>]\<rparr>
       (if True then normalize_path ''/logo.bin'' else ''/logo.bin'') = None
   \<and> SRLReader_open
        \<lparr>reader_file = \<lparr>content = [], pos = 0, closed = False\<rparr>, apptitle = [], regionlocks = [],
             shortDesc = [], longDesc = [], icon_offset = 0, icon = None,
             entries = [''icon'' \<mapsto> \<lparr>entry_offset = 0x200, entry_size = 0x10\<rparr>]\<rparr>
        ''/logo.bin'' True
       = Inl (KeyError ''logo'')"
proof -
  let ?r = "\<lparr>reader_file = \<lparr>content = [], pos = 0, closed = False\<rparr>, apptitle = [], regionlocks = [],
             shortDesc = [], longDesc = [], icon_offset = 0, icon = None,
             entries = [''icon'' \<mapsto> \<lparr>entry_offset = 0x200, entry_size = 0x10\<rparr>]\<rparr>"
  have n: "normalize_path ''/logo.bin'' = ''logo''"
    by code_simp
  have h: "entries ?r (if True then normalize_path ''/logo.bin'' else ''/logo.bin'') = None"
    by (simp add: n)
  from open_missing_raises [OF h] h n show ?thesis
    by simp
qed


text \<open>
  C5 as stated fails.  The icon loaded from an empty block has the empty title
  \<open>("", "", "")\<close> for the first eight regions and \<open>None\<close> for the other four: the title
  table is empty or absent for every language.  With the default preference order,
  \<open>get_app_title\<close> returns the empty title of \<open>English\<close>, not the \<open>"unknown"\<close> triple.
\<close>

theorem get_app_title_empty_title_returned:
  "fst (SRLIcon_load (new_SubsectionIO \<lparr>content = [], pos = 0, closed = False\<rparr> 0 0x2400))
     = Inr (SRLIcon_init
            [''Japanese'' \<mapsto> AppTitle [] [] [], ''English'' \<mapsto> AppTitle [] [] [],
             ''French'' \<mapsto> AppTitle [] [] [], ''German'' \<mapsto> AppTitle [] [] [],
             ''Italian'' \<mapsto> AppTitle [] [] [], ''Spanish'' \<mapsto> AppTitle [] [] [],
             ''Simplified Chinese'' \<mapsto> AppTitle [] [] [], ''Korean'' \<mapsto> AppTitle [] [] []]
            [] [] [])
   \<and> get_app_title
         (SRLIcon_init
            [''Japanese'' \<mapsto> AppTitle [] [] [], ''English'' \<mapsto> AppTitle [] [] [],
             ''French'' \<mapsto> AppTitle [] [] [], ''German'' \<mapsto> AppTitle [] [] [],
             ''Italian'' \<mapsto> AppTitle [] [] [], ''Spanish'' \<mapsto> AppTitle [] [] [],
             ''Simplified Chinese'' \<mapsto> AppTitle [] [] [], ''Korean'' \<mapsto> AppTitle [] [] []]
            [] [] [])
         (LangTuple region_order_check)
     = Inr (AppTitle [] [] [])
   \<and> AppTitle [] [] [] \<noteq> AppTitle (ustr ''unknown'') (ustr ''unknown'') (ustr ''unknown'')"
  by (simp add: load_empty get_app_title_def region_order_check_def names_init region_names_def
      ustr_def)

theorem get_app_title_returns_witness:
  "fst (SRLIcon_load (new_SubsectionIO \<lparr>content = [], pos = 0, closed = False\<rparr> 0 0x2400))
     = Inr (SRLIcon_init
            [''Japanese'' \<mapsto> AppTitle [] [] [], ''English'' \<mapsto> AppTitle [] [] [],
             ''French'' \<mapsto> AppTitle [] [] [], ''German'' \<mapsto> AppTitle [] [] [],
             ''Italian'' \<mapsto> AppTitle [] [] [], ''Spanish'' \<mapsto> AppTitle [] [] [],
             ''Simplified Chinese'' \<mapsto> AppTitle [] [] [], ''Korean'' \<mapsto> AppTitle [] [] []]
            [] [] [])
   \<and> set (case LangTuple [''Dutch'', ''Russian''] of LangStr l \<Rightarrow> [l] | LangTuple ls \<Rightarrow> ls)
        \<subseteq> set region_names
   \<and> get_app_title
         (SRLIcon_init
            [''Japanese'' \<mapsto> AppTitle [] [] [], ''English'' \<mapsto> AppTitle [] [] [],
             ''French'' \<mapsto> AppTitle [] [] [], ''German'' \<mapsto> AppTitle [] [] [],
             ''Italian'' \<mapsto> AppTitle [] [] [], ''Spanish'' \<mapsto> AppTitle [] [] [],
             ''Simplified Chinese'' \<mapsto> AppTitle [] [] [], ''Korean'' \<mapsto> AppTitle [] [] []]
            [] [] [])
         (LangTuple [''Dutch'', ''Russian''])
     = Inr (AppTitle (ustr ''unknown'') (ustr ''unknown'') (ustr ''unknown''))"
proof -
  let ?icn = "SRLIcon_init
            [''Japanese'' \<mapsto> AppTitle [] [] [], ''English'' \<mapsto> AppTitle [] [] [],
             ''French'' \<mapsto> AppTitle [] [] [], ''German'' \<mapsto> AppTitle [] [] [],
             ''Italian'' \<mapsto> AppTitle [] [] [], ''Spanish'' \<mapsto> AppTitle [] [] [],
             ''Simplified Chinese'' \<mapsto> AppTitle [] [] [], ''Korean'' \<mapsto> AppTitle [] [] []]
            [] [] []"
  let ?fp = "new_SubsectionIO \<lparr>content = [], pos = 0, closed = False\<rparr> 0 0x2400"
  have h1: "fst (SRLIcon_load ?fp) = Inr ?icn"
    by (rule load_empty)
  have h2: "set (case LangTuple [''Dutch'', ''Russian''] of LangStr l \<Rightarrow> [l] | LangTuple ls \<Rightarrow> ls)
        \<subseteq> set region_names"
    by (simp add: region_names_def)
  have "get_app_title ?icn (LangTuple [''Dutch'', ''Russian''])
     = Inr (AppTitle (ustr ''unknown'') (ustr ''unknown'') (ustr ''unknown''))"
    using get_app_title_returns [OF h1 h2] by (simp add: names_init region_names_def)
  with h1 h2 show ?thesis
    by blast
qed

text \<open>
  C10.  After construction the reader has the attribute \<open>icon\<close> exactly when loading the
  icon returned one.  If loading raised, the attribute was never assigned, and reading it
  raises \<open>AttributeError\<close>; if loading returned an icon, the attribute holds that icon.
\<close>

theorem icon_attribute_only_after_success:
  "\<not> closed fp \<Longrightarrow>
   \<exists>s. SRLReader_init fp ents = Inr (load_icon s) \<and> icon s = None
     \<and> (case fst (SRLIcon_load (new_SubsectionIO (reader_file s) (icon_offset s) (int SRLICON_SIZE))) of
           Inl e \<Rightarrow> icon (load_icon s) = None \<and> get_icon (load_icon s) = Inl AttributeError
         | Inr i \<Rightarrow> icon (load_icon s) = Some i \<and> get_icon (load_icon s) = Inr i)"
proof -
  assume "\<not> closed fp"
  from init_open [OF this, of ents] obtain s where
    s: "SRLReader_init fp ents = Inr (load_icon s)" "icon s = None"
    by blast
  then show ?thesis
    by (auto simp add: load_icon_icon get_icon_def split: sum.splits)
qed

lemma init_surrogate:
  "\<exists>s. SRLReader_init \<lparr>content = replicate 576 0 @ [0x00, 0xDC], pos = 0, closed = False\<rparr> ents
         = Inr (load_icon s)
     \<and> icon s = None
     \<and> reader_file s = \<lparr>content = replicate 576 0 @ [0x00, 0xDC], pos = 384, closed = False\<rparr>
     \<and> icon_offset s = 0"
proof -
  let ?fp = "\<lparr>content = replicate 576 (0::byte) @ [0x00, 0xDC], pos = 0, closed = False\<rparr>"
  have "\<not> closed ?fp" by simp
  from init_open [OF this, of ents] obtain s where
    s: "SRLReader_init ?fp ents = Inr (load_icon s)" "icon s = None"
    and f: "reader_file s =
               ?fp\<lparr>pos := pos ?fp + length (take 0x180 (drop (pos ?fp) (content ?fp)))
                     + (if readbe (slice (take 0x180 (drop (pos ?fp) (content ?fp))) 0x12 0x13) AND 0x01 \<noteq> 0
                        then length (take 0xE80 (drop (pos ?fp + length (take 0x180 (drop (pos ?fp) (content ?fp))))
                                                    (content ?fp)))
                        else 0)\<rparr>"
    and o: "icon_offset s = readle (slice (take 0x180 (drop (pos ?fp) (content ?fp))) 0x68 0x6C)"
    by blast
  have f': "reader_file s = \<lparr>content = replicate 576 0 @ [0x00, 0xDC], pos = 384, closed = False\<rparr>"
    unfolding f by (simp add: slice_def readbe_single)
  have o': "icon_offset s = 0"
    unfolding o by (simp add: slice_def readle_zeros)
  from s f' o' show ?thesis by blast
qed

theorem icon_attribute_only_after_success_witness:
  "\<not> closed \<lparr>content = replicate 576 0 @ [0x00, 0xDC], pos = 0, closed = False\<rparr>
   \<and> (\<exists>s. SRLReader_init \<lparr>content = replicate 576 0 @ [0x00, 0xDC], pos = 0, closed = False\<rparr> Map.empty
             = Inr (load_icon s)
         \<and> icon s = None
         \<and> (case fst (SRLIcon_load (new_SubsectionIO (reader_file s) (icon_offset s) (int SRLICON_SIZE))) of
               Inl e \<Rightarrow> icon (load_icon s) = None \<and> get_icon (load_icon s) = Inl AttributeError
             | Inr i \<Rightarrow> icon (load_icon s) = Some i \<and> get_icon (load_icon s) = Inr i))
   \<and> map_sum id get_icon
         (SRLReader_init \<lparr>content = replicate 576 0 @ [0x00, 0xDC], pos = 0, closed = False\<rparr> Map.empty)
       = Inr (Inl AttributeError)"
proof -
  let ?fp = "\<lparr>content = replicate 576 (0::byte) @ [0x00, 0xDC], pos = 0, closed = False\<rparr>"
  have h: "\<not> closed ?fp" by simp
  from init_surrogate [of Map.empty] obtain s where
    s: "SRLReader_init ?fp Map.empty = Inr (load_icon s)" "icon s = None"
       "reader_file s = \<lparr>content = replicate 576 0 @ [0x00, 0xDC], pos = 384, closed = False\<rparr>"
       "icon_offset s = 0"
    by blast
  have "icon (load_icon s) = None"
    by (simp add: load_icon_icon s SRLICON_SIZE_def load_surrogate)
  with s have v: "map_sum id get_icon (SRLReader_init ?fp Map.empty) = Inr (Inl AttributeError)"
    by (simp add: get_icon_def)
  from icon_attribute_only_after_success [OF h, of Map.empty] h v show ?thesis
    by blast
qed

end
